theory Spec2Isabelle
  imports Main
begin

section \<open>Reflected types and values\<close>

text \<open>
  The library inspects bound values and destination records through Go's \<open>reflect\<close>
  package. A reflected type is modelled as a finite tree. A defined type carries its package
  path, its name and the receivers on which it declares the methods \<open>Scan\<close>
  (\<open>sql.Scanner\<close>) and \<open>Value\<close> (\<open>driver.Valuer\<close>). Cyclic type
  definitions are outside the model: every type is a finite tree, types are compared
  structurally, and a struct field carries the result of \<open>Tag.Get("db")\<close>.
\<close>

datatype recv = NoMethod | ValueRecv | PtrRecv

datatype tname = TName (pkgPath: string) (tyName: string) (scanRecv: recv) (valueRecv: recv)

datatype kind =
  K_Invalid | K_Bool | K_Int | K_Uint8 | K_Int32 | K_String | K_Float
  | K_Pointer | K_Slice | K_Array | K_Map | K_Interface | K_Struct

datatype rtype =
    TBasic tname kind
  | TPtr rtype
  | TSlice tname rtype
  | TArray tname nat rtype
  | TMap tname rtype rtype
  | TIface
  | TStruct tname "sfield list"
and sfield = SField (fName: string) (fExported: bool) (fTag: string) (fType: rtype)

abbreviation unnamed :: tname where
  "unnamed \<equiv> TName [] [] NoMethod NoMethod"

abbreviation builtin :: "string \<Rightarrow> tname" where
  "builtin nm \<equiv> TName [] nm NoMethod NoMethod"

abbreviation intT :: rtype where "intT \<equiv> TBasic (builtin ''int'') K_Int"
abbreviation stringT :: rtype where "stringT \<equiv> TBasic (builtin ''string'') K_String"
abbreviation boolT :: rtype where "boolT \<equiv> TBasic (builtin ''bool'') K_Bool"
abbreviation uint8T :: rtype where "uint8T \<equiv> TBasic (builtin ''uint8'') K_Uint8"
abbreviation bytesT :: rtype where "bytesT \<equiv> TSlice unnamed uint8T"

fun type_kind :: "rtype \<Rightarrow> kind" where
  "type_kind (TBasic _ k) = k"
| "type_kind (TPtr _) = K_Pointer"
| "type_kind (TSlice _ _) = K_Slice"
| "type_kind (TArray _ _ _) = K_Array"
| "type_kind (TMap _ _ _) = K_Map"
| "type_kind TIface = K_Interface"
| "type_kind (TStruct _ _) = K_Struct"

fun type_tname :: "rtype \<Rightarrow> tname" where
  "type_tname (TBasic tn _) = tn"
| "type_tname (TPtr _) = unnamed"
| "type_tname (TSlice tn _) = tn"
| "type_tname (TArray tn _ _) = tn"
| "type_tname (TMap tn _ _) = tn"
| "type_tname TIface = unnamed"
| "type_tname (TStruct tn _) = tn"

text \<open>\<open>Type.Elem()\<close> for pointers, slices and arrays.\<close>

fun type_elem :: "rtype \<Rightarrow> rtype" where
  "type_elem (TPtr t) = t"
| "type_elem (TSlice _ t) = t"
| "type_elem (TArray _ _ t) = t"
| "type_elem (TMap _ _ t) = t"
| "type_elem t = t"

fun struct_fields :: "rtype \<Rightarrow> sfield list" where
  "struct_fields (TStruct _ fs) = fs"
| "struct_fields _ = []"

text \<open>
  Go's method sets: a value-receiver method belongs to \<open>T\<close> and to \<open>*T\<close>, a
  pointer-receiver method to \<open>*T\<close> only; \<open>**T\<close>, unnamed types and the empty
  interface have no methods.
\<close>

fun has_method :: "(tname \<Rightarrow> recv) \<Rightarrow> rtype \<Rightarrow> bool" where
  "has_method sel (TPtr (TPtr _)) = False"
| "has_method sel (TPtr TIface) = False"
| "has_method sel (TPtr t) = (sel (type_tname t) \<noteq> NoMethod)"
| "has_method sel TIface = False"
| "has_method sel t = (sel (type_tname t) = ValueRecv)"

definition implements_scanner :: "rtype \<Rightarrow> bool" where
  "implements_scanner t = has_method scanRecv t"

definition implements_valuer :: "rtype \<Rightarrow> bool" where
  "implements_valuer t = has_method valueRecv t"

text \<open>
  A value of type \<open>any\<close>. Every constructor but \<open>VNil\<close> (the nil interface) and
  \<open>VIface\<close> (a slot of interface type, as returned by \<open>Field\<close> or \<open>Index\<close>)
  carries its dynamic type. \<open>VScalar\<close> is the wrapper \<open>scalar{v}\<close> and
  \<open>VAmbiguous\<close> the \<open>ambiguousSentinel{name}\<close> of the parser.
\<close>

datatype prim = PBool bool | PInt int | PStr string

datatype val =
    VNil
  | VPrim rtype prim
  | VPtr rtype "val option"
  | VSlice rtype "val list"
  | VArray rtype "val list"
  | VMap rtype "(val \<times> val) list"
  | VStruct rtype "val list"
  | VIface val
  | VScalar val
  | VAmbiguous string

abbreviation scalarT :: rtype where
  "scalarT \<equiv> TStruct (TName ''sqlr'' ''scalar'' NoMethod NoMethod) [SField ''v'' False [] TIface]"

abbreviation ambiguousT :: rtype where
  "ambiguousT \<equiv> TStruct (TName ''sqlr'' ''ambiguousSentinel'' NoMethod NoMethod)
     [SField ''name'' False [] stringT]"

abbreviation VInt :: "int \<Rightarrow> val" where "VInt i \<equiv> VPrim intT (PInt i)"
abbreviation VStr :: "string \<Rightarrow> val" where "VStr s \<equiv> VPrim stringT (PStr s)"

fun type_of :: "val \<Rightarrow> rtype" where
  "type_of VNil = TIface"
| "type_of (VPrim t _) = t"
| "type_of (VPtr t _) = t"
| "type_of (VSlice t _) = t"
| "type_of (VArray t _) = t"
| "type_of (VMap t _) = t"
| "type_of (VStruct t _) = t"
| "type_of (VIface _) = TIface"
| "type_of (VScalar _) = scalarT"
| "type_of (VAmbiguous _) = ambiguousT"

fun kind_of :: "val \<Rightarrow> kind" where
  "kind_of VNil = K_Invalid"
| "kind_of v = type_kind (type_of v)"

definition is_valid :: "val \<Rightarrow> bool" where
  "is_valid v = (v \<noteq> VNil)"

fun is_nil :: "val \<Rightarrow> bool" where
  "is_nil (VPtr _ None) = True"
| "is_nil (VIface VNil) = True"
| "is_nil _ = False"

text \<open>\<open>Value.Elem()\<close> of a non-nil pointer or interface slot.\<close>

fun elem :: "val \<Rightarrow> val" where
  "elem (VPtr _ (Some v)) = v"
| "elem (VIface v) = v"
| "elem v = v"

text \<open>\<open>Value.Interface()\<close>: the value as an \<open>any\<close>; an interface slot yields its content.\<close>

fun interface :: "val \<Rightarrow> val" where
  "interface (VIface v) = v"
| "interface v = v"

text \<open>
  \<open>Value.Field(i)\<close>. A well-typed struct value has one entry per declared field; outside
  that range Go panics, and the model yields the invalid value.
\<close>

fun field :: "val \<Rightarrow> nat \<Rightarrow> val" where
  "field (VStruct _ fs) i = (if i < length fs then fs ! i else VNil)"
| "field (VScalar v) i = (if i = 0 then VIface v else VNil)"
| "field (VAmbiguous nm) i = (if i = 0 then VStr nm else VNil)"
| "field _ i = VNil"

fun seq_elems :: "val \<Rightarrow> val list" where
  "seq_elems (VSlice _ xs) = xs"
| "seq_elems (VArray _ xs) = xs"
| "seq_elems _ = []"

section \<open>Small string helpers\<close>

definition isAlphaUnderscore :: "char \<Rightarrow> bool" where
  "isAlphaUnderscore b =
     (((of_char b :: nat) \<ge> 65 \<and> (of_char b :: nat) \<le> 90)
      \<or> ((of_char b :: nat) \<ge> 97 \<and> (of_char b :: nat) \<le> 122)
      \<or> b = CHR ''_'')"

definition isAlphaNumUnderscore :: "char \<Rightarrow> bool" where
  "isAlphaNumUnderscore b =
     (isAlphaUnderscore b \<or> ((of_char b :: nat) \<ge> 48 \<and> (of_char b :: nat) \<le> 57))"

text \<open>
  \<open>strings.TrimSpace\<close> on the ASCII white space characters (tab, line feed, vertical
  tab, form feed, carriage return, space). The multi-byte Unicode spaces that Go also
  trims are not modelled.
\<close>

definition isSpace :: "char \<Rightarrow> bool" where
  "isSpace b = ((of_char b :: nat) \<in> {9, 10, 11, 12, 13, 32})"

definition TrimSpace :: "string \<Rightarrow> string" where
  "TrimSpace s = rev (dropWhile isSpace (rev (dropWhile isSpace s)))"

text \<open>\<open>strings.Split(s, ",")\<close>: always at least one part.\<close>

fun split_comma :: "string \<Rightarrow> string list" where
  "split_comma [] = [[]]"
| "split_comma (c # cs) =
     (if c = CHR '','' then [] # split_comma cs
      else (case split_comma cs of p # ps \<Rightarrow> (c # p) # ps | [] \<Rightarrow> [[c]]))"

section \<open>The flattened field index (fieldIndexMap)\<close>

record fieldInfo =
  index :: "nat list"
  scalar :: bool
  ambiguous :: bool

type_synonym fmap = "string \<Rightarrow> fieldInfo option"

text \<open>\<open>shouldFlatten\<close>: descend into a struct or pointer-to-struct field, unless it is a
  Scanner or \<open>time.Time\<close>.\<close>

definition shouldFlatten :: "rtype \<Rightarrow> bool" where
  "shouldFlatten ft =
     (if implements_scanner (TPtr ft) \<or> implements_scanner ft then False
      else let tt = (if type_kind ft = K_Pointer then type_elem ft else ft) in
        if type_kind tt \<noteq> K_Struct then False
        else if pkgPath (type_tname tt) = ''time'' \<and> tyName (type_tname tt) = ''Time'' then False
        else True)"

text \<open>The column name and the \<open>scalar\<close> option that a field's \<open>db\<close> tag gives.\<close>

definition tag_name :: "sfield \<Rightarrow> string" where
  "tag_name f =
     (if fTag f = [] then fName f
      else let parts = split_comma (fTag f) in
        if hd parts \<noteq> [] then hd parts else fName f)"

definition tag_scalar :: "sfield \<Rightarrow> bool" where
  "tag_scalar f =
     (if fTag f = [] then False
      else (\<exists>p \<in> set (tl (split_comma (fTag f))). TrimSpace p = ''scalar''))"

text \<open>The leaf case of the walk: the first field of a name is recorded, a second one marks
  the name ambiguous, later ones leave it so.\<close>

definition add_leaf :: "string \<Rightarrow> nat list \<Rightarrow> bool \<Rightarrow> fmap \<Rightarrow> fmap" where
  "add_leaf name path sc m =
     (case m name of
        Some prev \<Rightarrow>
          (if \<not> ambiguous prev
           then m(name \<mapsto> \<lparr>index = [], scalar = False, ambiguous = True\<rparr>)
           else m)
      | None \<Rightarrow> m(name \<mapsto> \<lparr>index = path, scalar = sc, ambiguous = False\<rparr>))"

fun walk :: "rtype list \<Rightarrow> rtype \<Rightarrow> nat list \<Rightarrow> fmap \<Rightarrow> fmap"
and walk_fields :: "rtype list \<Rightarrow> sfield list \<Rightarrow> nat \<Rightarrow> nat list \<Rightarrow> fmap \<Rightarrow> fmap"
where
  "walk visited (TPtr t) path m = walk visited t path m"
| "walk visited (TStruct tn fs) path m =
     (if TStruct tn fs \<in> set visited then m
      else walk_fields (TStruct tn fs # visited) fs 0 path m)"
| "walk visited (TBasic _ _) path m = m"
| "walk visited (TSlice _ _) path m = m"
| "walk visited (TArray _ _ _) path m = m"
| "walk visited (TMap _ _ _) path m = m"
| "walk visited TIface path m = m"
| "walk_fields visited [] i path m = m"
| "walk_fields visited (SField nm ex tg ft # fs) i path m =
     walk_fields visited fs (Suc i) path
       (if \<not> ex then m
        else if tg = ''-'' then m
        else if shouldFlatten ft
          then (case ft of TPtr t \<Rightarrow> walk visited t (path @ [i]) m
                | _ \<Rightarrow> walk visited ft (path @ [i]) m)
        else add_leaf (tag_name (SField nm ex tg ft)) (path @ [i])
               (tag_scalar (SField nm ex tg ft)) m)"

fun strip_ptrs :: "rtype \<Rightarrow> rtype" where
  "strip_ptrs (TPtr t) = strip_ptrs t"
| "strip_ptrs t = t"

text \<open>
  \<open>fieldIndexMap\<close>. The two-generation cache in front of it only memoises this
  function of the type, so the model computes the map directly.
\<close>

definition fieldIndexMap :: "rtype \<Rightarrow> fmap" where
  "fieldIndexMap t =
     (let base = strip_ptrs t in
      if type_kind base \<noteq> K_Struct then Map.empty
      else walk [] base [] Map.empty)"

section \<open>Resolving names against the bound inputs\<close>

text \<open>
  The loop \<open>for v.IsValid() && (v.Kind() == Interface || v.Kind() == Pointer)\<close> that
  gives up on a nil pointer or interface: \<open>None\<close> is that early return.
\<close>

fun unwrap :: "val \<Rightarrow> val option" where
  "unwrap (VPtr _ None) = None"
| "unwrap (VPtr _ (Some v)) = unwrap v"
| "unwrap (VIface VNil) = None"
| "unwrap (VIface v) = unwrap v"
| "unwrap v = Some v"

text \<open>\<open>deIndirect\<close>: the same loop, returning the nil pointer or interface itself.\<close>

fun deIndirect :: "val \<Rightarrow> val" where
  "deIndirect (VPtr t None) = VPtr t None"
| "deIndirect (VPtr _ (Some v)) = deIndirect v"
| "deIndirect (VIface VNil) = VIface VNil"
| "deIndirect (VIface v) = deIndirect v"
| "deIndirect v = v"

text \<open>
  A map key type to which a \<open>string\<close> converts: a type of kind String, or the empty
  interface (slices cannot be key types). \<open>convert_key\<close> is the converted column name.
\<close>

definition string_convertible :: "rtype \<Rightarrow> bool" where
  "string_convertible keyT = (type_kind keyT = K_String \<or> keyT = TIface)"

definition convert_key :: "rtype \<Rightarrow> string \<Rightarrow> val" where
  "convert_key keyT name = (if keyT = TIface then VIface (VStr name) else VPrim keyT (PStr name))"

text \<open>\<open>Value.MapIndex(key)\<close>: the slot stored under the key, if any.\<close>

fun map_entries :: "val \<Rightarrow> (val \<times> val) list" where
  "map_entries (VMap _ es) = es"
| "map_entries _ = []"

definition MapIndex :: "val \<Rightarrow> val \<Rightarrow> val option" where
  "MapIndex m key = map_of (map (\<lambda>(k, v). (interface k, v)) (map_entries m)) (interface key)"

abbreviation mapStringAnyT :: rtype where
  "mapStringAnyT \<equiv> TMap unnamed stringT TIface"

text \<open>The map branch shared by \<open>singleLookup\<close> and \<open>getColValue\<close>.\<close>

definition map_lookup :: "val \<Rightarrow> string \<Rightarrow> val \<times> bool" where
  "map_lookup v name =
     (let keyT = (case type_of v of TMap _ k _ \<Rightarrow> k | _ \<Rightarrow> TIface) in
      if stringT \<noteq> keyT \<and> \<not> string_convertible keyT then (VNil, False)
      else (case MapIndex v (convert_key keyT name) of
              Some mv \<Rightarrow> (interface mv, True)
            | None \<Rightarrow> (VNil, False)))"

text \<open>
  \<open>getValueByPathAny\<close>: a nil pointer on the path, or a nil interface or pointer at the
  leaf, yields \<open>(nil, true)\<close>; a structural mismatch yields \<open>(nil, false)\<close>.
\<close>

fun follow_ptrs :: "val \<Rightarrow> val option" where
  "follow_ptrs (VPtr _ None) = None"
| "follow_ptrs (VPtr _ (Some v)) = follow_ptrs v"
| "follow_ptrs v = Some v"

fun unwrap_ifaces :: "val \<Rightarrow> val option" where
  "unwrap_ifaces (VIface VNil) = None"
| "unwrap_ifaces (VIface v) = unwrap_ifaces v"
| "unwrap_ifaces v = Some v"

fun path_loop :: "val \<Rightarrow> nat list \<Rightarrow> val \<times> bool" where
  "path_loop v [] = (VNil, False)"
| "path_loop v (idx # rest) =
     (case follow_ptrs v of
        None \<Rightarrow> (VNil, True)
      | Some v1 \<Rightarrow>
          if \<not> is_valid v1 \<or> kind_of v1 \<noteq> K_Struct then (VNil, False)
          else if rest = [] then
            (case unwrap_ifaces (field v1 idx) of
               None \<Rightarrow> (VNil, True)
             | Some l \<Rightarrow>
                 if kind_of l = K_Pointer
                 then (if is_nil l then (VNil, True) else (interface l, True))
                 else (interface l, True))
          else path_loop (field v1 idx) rest)"

definition getValueByPathAny :: "val \<Rightarrow> nat list \<Rightarrow> val \<times> bool" where
  "getValueByPathAny root path =
     (case unwrap_ifaces root of
        None \<Rightarrow> (VNil, True)
      | Some v \<Rightarrow> path_loop v path)"

definition singleLookup :: "val \<Rightarrow> string \<Rightarrow> val \<times> bool" where
  "singleLookup inp name =
     (if \<not> is_valid inp then (VNil, False)
      else case unwrap inp of
        None \<Rightarrow> (VNil, False)
      | Some v \<Rightarrow>
          if type_of v = mapStringAnyT then
            (case MapIndex v (VStr name) of Some x \<Rightarrow> (interface x, True) | None \<Rightarrow> (VNil, False))
          else if kind_of v = K_Map then map_lookup v name
          else if kind_of v = K_Struct then
            (case fieldIndexMap (type_of v) name of
               Some fi \<Rightarrow>
                 if ambiguous fi then (VAmbiguous name, True)
                 else let val = fst (getValueByPathAny v (index fi)) in
                   if scalar fi then (VScalar val, True) else (val, True)
             | None \<Rightarrow> (VNil, False))
          else (VNil, False))"

definition getColValue :: "val \<Rightarrow> string \<Rightarrow> val \<times> bool" where
  "getColValue row col =
     (if row \<noteq> VNil \<and> type_of row = mapStringAnyT then
        (case MapIndex row (VStr col) of Some x \<Rightarrow> (interface x, True) | None \<Rightarrow> (VNil, False))
      else case unwrap row of
        None \<Rightarrow> (VNil, False)
      | Some rv \<Rightarrow>
          if kind_of rv = K_Map then map_lookup rv col
          else if kind_of rv = K_Struct then
            (case fieldIndexMap (type_of rv) col of
               Some fi \<Rightarrow> (fst (getValueByPathAny rv (index fi)), True)
             | None \<Rightarrow> (VNil, False))
          else (VNil, False))"

text \<open>
  \<open>rowsFromSliceValue\<close>: the elements of a slice whose first element is a struct or a
  map (behind pointers and interfaces); an empty slice is accepted.
\<close>

definition rowsFromSliceValue :: "val \<Rightarrow> val list \<times> bool" where
  "rowsFromSliceValue v0 =
     (case unwrap v0 of
        None \<Rightarrow> ([], False)
      | Some v \<Rightarrow>
          if kind_of v \<noteq> K_Slice then ([], False)
          else let out = map interface (seq_elems v) in
            if out = [] then (out, True)
            else (case unwrap (hd (seq_elems v)) of
                    None \<Rightarrow> ([], False)
                  | Some el \<Rightarrow>
                      if kind_of el = K_Struct \<or> kind_of el = K_Map then (out, True)
                      else ([], False)))"

text \<open>
  \<open>singleRowsLookup\<close>. Case 1 indexes a map of string kind with the plain \<open>string\<close>
  name; for a key type that is a defined string type Go's \<open>MapIndex\<close> panics there, and
  the model has the lookup find nothing.
\<close>

definition singleRowsLookup :: "val \<Rightarrow> string \<Rightarrow> val list \<times> bool" where
  "singleRowsLookup inp name =
     (if \<not> is_valid inp then ([], False)
      else
        let keyT = (case type_of inp of TMap _ k _ \<Rightarrow> k | _ \<Rightarrow> TIface);
            mv = (if kind_of inp = K_Map \<and> type_kind keyT = K_String \<and> keyT = stringT
                  then MapIndex inp (VStr name) else None)
        in case mv of
             Some x \<Rightarrow> rowsFromSliceValue x
           | None \<Rightarrow> if name = ''rows'' then rowsFromSliceValue inp else ([], False))"

text \<open>\<open>makeMultiResolver\<close>: the inputs are tried from the last one bound to the first.\<close>

fun lookup_rev :: "val list \<Rightarrow> string \<Rightarrow> val \<times> bool" where
  "lookup_rev [] name = (VNil, False)"
| "lookup_rev (inp # inps) name =
     (if snd (singleLookup inp name) then (fst (singleLookup inp name), True)
      else lookup_rev inps name)"

definition lookup :: "val list \<Rightarrow> string \<Rightarrow> val \<times> bool" where
  "lookup inputs name = lookup_rev (rev inputs) name"

fun rowsLookup_rev :: "val list \<Rightarrow> string \<Rightarrow> val list \<times> bool" where
  "rowsLookup_rev [] name = ([], False)"
| "rowsLookup_rev (inp # inps) name =
     (if snd (singleRowsLookup inp name) then (fst (singleRowsLookup inp name), True)
      else rowsLookup_rev inps name)"

definition rowsLookup :: "val list \<Rightarrow> string \<Rightarrow> val list \<times> bool" where
  "rowsLookup inputs name = rowsLookup_rev (rev inputs) name"

section \<open>The template parser (parse)\<close>

datatype dialect = Postgres | MySQL | SQLite | SQLServer

record config =
  MaxParams :: int
  MaxNameLen :: int

text \<open>One constructor per \<open>fmt.Errorf\<close> site of \<open>parse\<close>, with the data of its message.\<close>

datatype error =
    ErrParamNameTooLong string
  | ErrRowsMalformed string
  | ErrRowsNoColumns string
  | ErrParamMissingRows string
  | ErrRowsEmpty string
  | ErrTooManyParams int int
  | ErrColumnNotFound string string nat
  | ErrFieldAmbiguousRow string string nat
  | ErrParamMissing string
  | ErrFieldAmbiguous string
  | ErrSliceEmpty string

datatype pstate = sText | sSQ | sDQ | sBT | sBR | sLC | sBC | sDQD

text \<open>
  What the parser has produced so far: the placeholder count \<open>n\<close>, the output buffer
  and the argument list.
\<close>

record emitted =
  n :: nat
  buf :: string
  args :: "val list"

text \<open>
  The variables of the loop: \<open>seen\<close> is \<open>q[:i]\<close> and \<open>rest\<close> is \<open>q[i:]\<close>, so that
  \<open>q = seen @ rest\<close> and \<open>i = length seen\<close>.
\<close>

record loop =
  state :: pstate
  seen :: string
  rest :: string
  dqTag :: string
  out :: emitted

definition advance :: "nat \<Rightarrow> loop \<Rightarrow> loop" where
  "advance k s = s\<lparr>seen := seen s @ take k (rest s), rest := drop k (rest s)\<rparr>"

definition writeString :: "string \<Rightarrow> emitted \<Rightarrow> emitted" where
  "writeString t e = e\<lparr>buf := buf e @ t\<rparr>"

definition put :: "string \<Rightarrow> loop \<Rightarrow> loop" where
  "put t s = s\<lparr>out := writeString t (out s)\<rparr>"

definition digit :: "nat \<Rightarrow> char" where
  "digit d = ''0123456789'' ! d"

fun itoa :: "nat \<Rightarrow> string" where
  "itoa k = (if k < 10 then [digit k] else itoa (k div 10) @ [digit (k mod 10)])"

declare itoa.simps [simp del]

definition writePlaceholder :: "dialect \<Rightarrow> nat \<Rightarrow> string" where
  "writePlaceholder d idx =
     (case d of
        Postgres \<Rightarrow> CHR ''$'' # itoa idx
      | SQLServer \<Rightarrow> ''@p'' @ itoa idx
      | _ \<Rightarrow> ''?'')"

definition ensureAdd :: "config \<Rightarrow> nat \<Rightarrow> nat \<Rightarrow> error option" where
  "ensureAdd cfg cur add =
     (if MaxParams cfg > 0 \<and> int (cur + add) > MaxParams cfg
      then Some (ErrTooManyParams (int (cur + add)) (MaxParams cfg))
      else None)"

text \<open>\<open>n++; writePlaceholder(&buf, dialect, n); args = append(args, v)\<close>.\<close>

definition emit :: "dialect \<Rightarrow> val \<Rightarrow> emitted \<Rightarrow> emitted" where
  "emit d v e =
     e\<lparr>n := Suc (n e), buf := buf e @ writePlaceholder d (Suc (n e)), args := args e @ [v]\<rparr>"

definition emit_single :: "dialect \<Rightarrow> config \<Rightarrow> val \<Rightarrow> emitted \<Rightarrow> error + emitted" where
  "emit_single d cfg v e =
     (case ensureAdd cfg (n e) 1 of
        Some err \<Rightarrow> Inl err
      | None \<Rightarrow> Inr (emit d v e))"

text \<open>The expansion loop over the elements of a slice or array, \<open>t\<close> the element index.\<close>

fun expand :: "dialect \<Rightarrow> val list \<Rightarrow> nat \<Rightarrow> emitted \<Rightarrow> emitted" where
  "expand d [] t e = e"
| "expand d (x # xs) t e =
     expand d xs (Suc t) (emit d (interface x) (if t > 0 then writeString '', '' e else e))"

text \<open>The simple \<open>:name\<close> (parser.go, from \<open>v, ok := lookup(name)\<close> on), without the
  final \<open>i = k\<close>.\<close>

definition bind_scalar ::
  "dialect \<Rightarrow> config \<Rightarrow> val list \<Rightarrow> string \<Rightarrow> emitted \<Rightarrow> error + emitted" where
  "bind_scalar d cfg inputs name e =
     (let v = fst (lookup inputs name) in
      if \<not> snd (lookup inputs name) then Inl (ErrParamMissing name)
      else case v of
        VAmbiguous a \<Rightarrow> Inl (ErrFieldAmbiguous a)
      | VScalar x \<Rightarrow> emit_single d cfg x e
      | _ \<Rightarrow>
        if v \<noteq> VNil \<and> implements_valuer (type_of v) then emit_single d cfg v e
        else if v \<noteq> VNil \<and> type_of v = bytesT then emit_single d cfg v e
        else if is_valid v \<and> kind_of v = K_Slice \<and> type_kind (type_elem (type_of v)) = K_Uint8
          then emit_single d cfg
                 (if type_of v \<noteq> bytesT \<and> type_elem (type_of v) = uint8T
                  then VSlice bytesT (seq_elems v) else v) e
        else if (kind_of v = K_Slice \<or> kind_of v = K_Array)
                \<and> type_kind (type_elem (type_of v)) \<noteq> K_Uint8
          then (let ln = length (seq_elems v) in
                if ln = 0 then Inl (ErrSliceEmpty name)
                else case ensureAdd cfg (n e) ln of
                  Some err \<Rightarrow> Inl err
                | None \<Rightarrow> Inr (expand d (seq_elems v) 0 e))
        else emit_single d cfg v e)"

text \<open>\<open>readCols\<close>, started after the opening brace: \<open>cur\<close> is \<open>q[start:i]\<close>. The result
  is the input left after the closing brace and the columns.\<close>

fun readCols_loop :: "string \<Rightarrow> string \<Rightarrow> string list \<Rightarrow> (string \<times> string list) option" where
  "readCols_loop [] cur cols = None"
| "readCols_loop (c # cs) cur cols =
     (if c = CHR ''}'' then
        (if cur \<noteq> [] then
           (if TrimSpace cur = [] then None else Some (cs, cols @ [TrimSpace cur]))
         else Some (cs, cols))
      else if c = CHR '','' then
        (if TrimSpace cur = [] then None else readCols_loop cs [] (cols @ [TrimSpace cur]))
      else readCols_loop cs (cur @ [c]) cols)"

definition readCols :: "string \<Rightarrow> (string \<times> string list) option" where
  "readCols r = readCols_loop (tl r) [] []"

text \<open>The paths of the requested columns in a struct type's field index; the first column
  that is missing or ambiguous is the error, for record \<open>r\<close>.\<close>

fun col_paths :: "fmap \<Rightarrow> string \<Rightarrow> nat \<Rightarrow> string list \<Rightarrow> error + nat list list" where
  "col_paths fm name r [] = Inr []"
| "col_paths fm name r (col # cols) =
     (case fm col of
        None \<Rightarrow> Inl (ErrColumnNotFound col name r)
      | Some fi \<Rightarrow>
          if ambiguous fi then Inl (ErrFieldAmbiguousRow col name r)
          else (case col_paths fm name r cols of
                  Inl e \<Rightarrow> Inl e
                | Inr ps \<Rightarrow> Inr (index fi # ps)))"

definition key_type :: "val \<Rightarrow> rtype" where
  "key_type v = (case type_of v of TMap _ k _ \<Rightarrow> k | _ \<Rightarrow> TIface)"

type_synonym pathcache = "rtype \<Rightarrow> nat list list option"

text \<open>The paths of a struct row's type: from \<open>colPathByType\<close>, or resolved now and stored.\<close>

definition row_paths ::
  "string \<Rightarrow> string list \<Rightarrow> nat \<Rightarrow> val \<Rightarrow> pathcache \<Rightarrow> error + nat list list \<times> pathcache" where
  "row_paths name cols r rv cache =
     (case cache (type_of rv) of
        Some ps \<Rightarrow> Inr (ps, cache)
      | None \<Rightarrow>
          (case col_paths (fieldIndexMap (type_of rv)) name r cols of
             Inl e \<Rightarrow> Inl e
           | Inr ps \<Rightarrow> Inr (ps, cache(type_of rv \<mapsto> ps))))"

definition useMapFast :: "val list option \<Rightarrow> rtype option \<Rightarrow> val \<Rightarrow> bool" where
  "useMapFast colKeys mapKeyT rv =
     (colKeys \<noteq> None \<and> is_valid rv \<and> kind_of rv = K_Map \<and> Some (key_type rv) = mapKeyT)"

text \<open>The value of column \<open>c\<close> (index \<open>cidx\<close>) of a row that is not a struct.\<close>

definition other_col_value ::
  "val list option \<Rightarrow> rtype option \<Rightarrow> val \<Rightarrow> string \<Rightarrow> nat \<Rightarrow> val \<times> bool" where
  "other_col_value colKeys mapKeyT row c cidx =
     (if useMapFast colKeys mapKeyT (deIndirect row)
      then (case MapIndex (deIndirect row) (the colKeys ! cidx) of
              Some mv \<Rightarrow> (interface mv, True)
            | None \<Rightarrow> (VNil, False))
      else getColValue row c)"

text \<open>The column loop of one row: \<open>cs\<close> are the columns from index \<open>cidx\<close> on.\<close>

fun emit_cols ::
  "dialect \<Rightarrow> string \<Rightarrow> string list \<Rightarrow> val list option \<Rightarrow> rtype option \<Rightarrow> nat \<Rightarrow> val
     \<Rightarrow> string list \<Rightarrow> nat \<Rightarrow> pathcache \<times> emitted \<Rightarrow> error + pathcache \<times> emitted" where
  "emit_cols d name cols colKeys mapKeyT r row [] cidx ce = Inr ce"
| "emit_cols d name cols colKeys mapKeyT r row (c # cs) cidx ce =
     (let e1 = (if cidx > 0 then writeString '', '' (snd ce) else snd ce);
          rv = deIndirect row
      in
      if is_valid rv \<and> kind_of rv = K_Struct then
        (case row_paths name cols r rv (fst ce) of
           Inl err \<Rightarrow> Inl err
         | Inr pc \<Rightarrow>
             if \<not> snd (getValueByPathAny rv (fst pc ! cidx)) then Inl (ErrColumnNotFound c name r)
             else emit_cols d name cols colKeys mapKeyT r row cs (Suc cidx)
                    (snd pc, emit d (fst (getValueByPathAny rv (fst pc ! cidx))) e1))
      else
        if \<not> snd (other_col_value colKeys mapKeyT row c cidx)
        then Inl (ErrColumnNotFound c name r)
        else emit_cols d name cols colKeys mapKeyT r row cs (Suc cidx)
               (fst ce, emit d (fst (other_col_value colKeys mapKeyT row c cidx)) e1))"

text \<open>The row loop: \<open>rs\<close> are the rows from index \<open>r\<close> on.\<close>

fun emit_rows ::
  "dialect \<Rightarrow> string \<Rightarrow> string list \<Rightarrow> val list option \<Rightarrow> rtype option
     \<Rightarrow> val list \<Rightarrow> nat \<Rightarrow> pathcache \<times> emitted \<Rightarrow> error + pathcache \<times> emitted" where
  "emit_rows d name cols colKeys mapKeyT [] r ce = Inr ce"
| "emit_rows d name cols colKeys mapKeyT (row # rs) r ce =
     (case emit_cols d name cols colKeys mapKeyT r row cols 0
             (fst ce, writeString ''('' (if r > 0 then writeString '', '' (snd ce) else snd ce)) of
        Inl err \<Rightarrow> Inl err
      | Inr ce' \<Rightarrow>
          emit_rows d name cols colKeys mapKeyT rs (Suc r) (fst ce', writeString '')'' (snd ce')))"

text \<open>The fast-path setup from the first row: \<open>mapKeyT\<close>, the pre-converted \<open>colKeys\<close>
  and the paths precomputed for the first row's struct type.\<close>

definition first_mapKeyT :: "val \<Rightarrow> rtype option" where
  "first_mapKeyT rv0 = (if is_valid rv0 \<and> kind_of rv0 = K_Map then Some (key_type rv0) else None)"

definition first_colKeys :: "val \<Rightarrow> string list \<Rightarrow> val list option" where
  "first_colKeys rv0 cols =
     (if is_valid rv0 \<and> kind_of rv0 = K_Map
         \<and> (type_kind (key_type rv0) = K_String \<or> string_convertible (key_type rv0))
      then Some (map (\<lambda>col. if stringT \<noteq> key_type rv0 \<and> string_convertible (key_type rv0)
                            then convert_key (key_type rv0) col else VStr col) cols)
      else None)"

definition precompute :: "string \<Rightarrow> string list \<Rightarrow> val \<Rightarrow> error + pathcache" where
  "precompute name cols rv0 =
     (if is_valid rv0 \<and> kind_of rv0 = K_Struct
      then (case col_paths (fieldIndexMap (type_of rv0)) name 0 cols of
              Inl e \<Rightarrow> Inl e
            | Inr ps \<Rightarrow> Inr [type_of rv0 \<mapsto> ps])
      else Inr Map.empty)"

text \<open>The row block \<open>:name{cols}\<close> (parser.go, from \<open>rows, ok := rowsLookup(name)\<close> on),
  without the final \<open>i = k2\<close>.\<close>

definition bind_rows ::
  "dialect \<Rightarrow> config \<Rightarrow> val list \<Rightarrow> string \<Rightarrow> string list \<Rightarrow> emitted \<Rightarrow> error + emitted" where
  "bind_rows d cfg inputs name cols e =
     (let rows = fst (rowsLookup inputs name) in
      if \<not> snd (rowsLookup inputs name) then Inl (ErrParamMissingRows name)
      else if length rows = 0 then Inl (ErrRowsEmpty name)
      else if ensureAdd cfg (n e) (length rows * length cols) \<noteq> None
        then Inl (the (ensureAdd cfg (n e) (length rows * length cols)))
      else
        (case precompute name cols (deIndirect (hd rows)) of
           Inl err \<Rightarrow> Inl err
         | Inr cache \<Rightarrow>
             (case emit_rows d name cols (first_colKeys (deIndirect (hd rows)) cols)
                     (first_mapKeyT (deIndirect (hd rows))) rows 0 (cache, e) of
                Inl err \<Rightarrow> Inl err
              | Inr res \<Rightarrow> Inr (snd res))))"

text \<open>\<open>readDollarTag\<close>: a tag \<open>$...$\<close> at the start of the input.\<close>

definition readDollarTag :: "string \<Rightarrow> string option" where
  "readDollarTag s =
     (if length s < 2 \<or> hd s \<noteq> CHR ''$'' then None
      else let run = takeWhile isAlphaNumUnderscore (tl s);
               after = dropWhile isAlphaNumUnderscore (tl s)
           in if after \<noteq> [] \<and> hd after = CHR ''$'' then Some (take (length run + 2) s) else None)"

text \<open>\<open>strings.Index\<close>: the first position at which the substring occurs.\<close>

fun str_index :: "string \<Rightarrow> string \<Rightarrow> nat option" where
  "str_index [] sub = (if sub = [] then Some 0 else None)"
| "str_index (c # cs) sub =
     (if take (length sub) (c # cs) = sub then Some 0
      else map_option Suc (str_index cs sub))"

text \<open>The placeholder branch of the \<open>sText\<close> case, entered at a colon that starts
  a name: the name-length check, then the row block or the simple placeholder.\<close>

definition param_name :: "loop \<Rightarrow> string" where
  "param_name s = hd (tl (rest s)) # takeWhile isAlphaNumUnderscore (tl (tl (rest s)))"

definition after_name :: "loop \<Rightarrow> string" where
  "after_name s = dropWhile isAlphaNumUnderscore (tl (tl (rest s)))"

definition is_param_start :: "loop \<Rightarrow> bool" where
  "is_param_start s =
     (hd (rest s) = CHR '':'' \<and> tl (rest s) \<noteq> [] \<and> hd (tl (rest s)) \<noteq> CHR '':''
      \<and> \<not> (seen s \<noteq> [] \<and> last (seen s) = CHR '':'')
      \<and> isAlphaUnderscore (hd (tl (rest s))))"

definition name_too_long :: "config \<Rightarrow> string \<Rightarrow> bool" where
  "name_too_long cfg name = (MaxNameLen cfg > 0 \<and> int (length name) > MaxNameLen cfg)"

definition step_param :: "dialect \<Rightarrow> config \<Rightarrow> val list \<Rightarrow> loop \<Rightarrow> error + loop" where
  "step_param d cfg inputs s =
     (let name = param_name s; after = after_name s in
      if name_too_long cfg name then Inl (ErrParamNameTooLong name)
      else if after \<noteq> [] \<and> hd after = CHR ''{'' then
        (case readCols after of
           None \<Rightarrow> Inl (ErrRowsMalformed name)
         | Some res \<Rightarrow>
             if length (snd res) = 0 then Inl (ErrRowsNoColumns name)
             else (case bind_rows d cfg inputs name (snd res) (out s) of
                     Inl e \<Rightarrow> Inl e
                   | Inr e' \<Rightarrow> Inr (advance (length (rest s) - length (fst res)) (s\<lparr>out := e'\<rparr>))))
      else (case bind_scalar d cfg inputs name (out s) of
              Inl e \<Rightarrow> Inl e
            | Inr e' \<Rightarrow> Inr (advance (Suc (length name)) (s\<lparr>out := e'\<rparr>))))"

text \<open>The \<open>sText\<close> case of the loop body.\<close>

definition step_text :: "dialect \<Rightarrow> config \<Rightarrow> val list \<Rightarrow> loop \<Rightarrow> error + loop" where
  "step_text d cfg inputs s =
     (let c = hd (rest s); q1 = tl (rest s) in
      if c = CHR ''-'' \<and> q1 \<noteq> [] \<and> hd q1 = CHR ''-''
        then Inr (advance 2 (put ''--'' (s\<lparr>state := sLC\<rparr>)))
      else if c = CHR ''#'' \<and> d = MySQL
        then Inr (advance 1 (put ''#'' (s\<lparr>state := sLC\<rparr>)))
      else if c = CHR ''/'' \<and> q1 \<noteq> [] \<and> hd q1 = CHR ''*''
        then Inr (advance 2 (put ''/*'' (s\<lparr>state := sBC\<rparr>)))
      else if c = CHR 0x27
        then Inr (advance 1 (put [c] (s\<lparr>state := sSQ\<rparr>)))
      else if c = CHR 0x22
        then Inr (advance 1 (put [c] (s\<lparr>state := sDQ\<rparr>)))
      else if c = CHR ''`'' \<and> (d = MySQL \<or> d = SQLite)
        then Inr (advance 1 (put [c] (s\<lparr>state := sBT\<rparr>)))
      else if c = CHR ''['' \<and> d = SQLServer
        then Inr (advance 1 (put [c] (s\<lparr>state := sBR\<rparr>)))
      else if c = CHR ''$'' \<and> readDollarTag (rest s) \<noteq> None
        then Inr (advance (length (the (readDollarTag (rest s))))
                   (put (the (readDollarTag (rest s)))
                      (s\<lparr>state := sDQD, dqTag := the (readDollarTag (rest s))\<rparr>)))
      else if is_param_start s then step_param d cfg inputs s
      else Inr (advance 1 (put [c] s)))"

text \<open>The quoted states \<open>sSQ\<close>, \<open>sDQ\<close> (with backslash escapes), \<open>sBT\<close> and \<open>sBR\<close>:
  \<open>cl\<close> is the closing character, doubled to escape itself.\<close>

definition step_quoted :: "char \<Rightarrow> bool \<Rightarrow> loop \<Rightarrow> loop" where
  "step_quoted cl bs s =
     (let c = hd (rest s) in
      if bs \<and> c = CHR 0x5C then
        (let s1 = advance 1 (put [c] s) in
         if rest s1 \<noteq> [] then advance 1 (put [hd (rest s1)] s1) else s1)
      else
        (let s1 = advance 1 (put [c] s) in
         if c = cl then
           (if rest s1 \<noteq> [] \<and> hd (rest s1) = cl then advance 1 (put [hd (rest s1)] s1)
            else s1\<lparr>state := sText\<rparr>)
         else s1))"

definition step_lc :: "loop \<Rightarrow> loop" where
  "step_lc s =
     (let c = hd (rest s); s1 = advance 1 (put [c] s) in
      if c = CHR 0x0A \<or> c = CHR 0x0D then s1\<lparr>state := sText\<rparr> else s1)"

definition step_bc :: "loop \<Rightarrow> loop" where
  "step_bc s =
     (let c = hd (rest s); s1 = advance 1 (put [c] s) in
      if c = CHR ''*'' \<and> rest s1 \<noteq> [] \<and> hd (rest s1) = CHR ''/''
      then (advance 1 (put ''/'' s1))\<lparr>state := sText\<rparr>
      else s1)"

definition step_dqd :: "loop \<Rightarrow> loop" where
  "step_dqd s =
     (if dqTag s = [] then advance (length (rest s)) (put (rest s) s)
      else case str_index (rest s) (dqTag s) of
        None \<Rightarrow> advance (length (rest s)) (put (rest s) s)
      | Some p \<Rightarrow>
          (advance (p + length (dqTag s)) (put (dqTag s) (put (take p (rest s)) s)))
            \<lparr>dqTag := [], state := sText\<rparr>)"

text \<open>One iteration of \<open>for i < len(q)\<close>; \<open>Inl\<close> is an error return.\<close>

definition step :: "dialect \<Rightarrow> config \<Rightarrow> val list \<Rightarrow> loop \<Rightarrow> error + loop" where
  "step d cfg inputs s =
     (case state s of
        sText \<Rightarrow> step_text d cfg inputs s
      | sSQ \<Rightarrow> Inr (step_quoted (CHR 0x27) True s)
      | sDQ \<Rightarrow> Inr (step_quoted (CHR 0x22) True s)
      | sBT \<Rightarrow> Inr (step_quoted (CHR ''`'') False s)
      | sBR \<Rightarrow> Inr (step_quoted (CHR '']'') False s)
      | sLC \<Rightarrow> Inr (step_lc s)
      | sBC \<Rightarrow> Inr (step_bc s)
      | sDQD \<Rightarrow> Inr (step_dqd s))"

text \<open>
  The loop \<open>for i := 0; i < len(q);\<close> and the final return. Go's three results are kept:
  on an error the text is empty and the arguments nil.
\<close>

function parse_loop ::
  "dialect \<Rightarrow> config \<Rightarrow> val list \<Rightarrow> loop \<Rightarrow> string \<times> val list \<times> error option" where
  "parse_loop d cfg inputs s =
     (if rest s = [] then (buf (out s), args (out s), None)
      else case step d cfg inputs s of
        Inl e \<Rightarrow> ([], [], Some e)
      | Inr s' \<Rightarrow> parse_loop d cfg inputs s')"
  by pat_completeness auto

definition init :: "string \<Rightarrow> loop" where
  "init q = \<lparr>state = sText, seen = [], rest = q, dqTag = [],
             out = \<lparr>n = 0, buf = [], args = []\<rparr>\<rparr>"

definition parse :: "dialect \<Rightarrow> string \<Rightarrow> val list \<Rightarrow> config \<Rightarrow> string \<times> val list \<times> error option" where
  "parse d q inputs cfg = parse_loop d cfg inputs (init q)"

section \<open>Specification-level notions used to state the properties\<close>

text \<open>
  The template as a sequence of tokens, following the lexical rules of the specification:
  literal text (everything copied verbatim, including quoted literals and comments), a
  scalar placeholder \<open>:name\<close>, a row block \<open>:name{cols}\<close>, or a row block whose column
  list is not closed or has an empty entry. The tokenizer looks at the position only and
  never at the bound inputs or the limits.
\<close>

datatype token = Lit string | Param string | RowBlock string "string list" | Malformed string

definition lit :: "loop \<Rightarrow> loop \<Rightarrow> token \<times> loop" where
  "lit s s' = (Lit (take (length (rest s) - length (rest s')) (rest s)), s'\<lparr>out := out s\<rparr>)"

definition lex_text :: "dialect \<Rightarrow> loop \<Rightarrow> token \<times> loop" where
  "lex_text d s =
     (let c = hd (rest s); q1 = tl (rest s) in
      if c = CHR ''-'' \<and> q1 \<noteq> [] \<and> hd q1 = CHR ''-'' then lit s (advance 2 (s\<lparr>state := sLC\<rparr>))
      else if c = CHR ''#'' \<and> d = MySQL then lit s (advance 1 (s\<lparr>state := sLC\<rparr>))
      else if c = CHR ''/'' \<and> q1 \<noteq> [] \<and> hd q1 = CHR ''*'' then lit s (advance 2 (s\<lparr>state := sBC\<rparr>))
      else if c = CHR 0x27 then lit s (advance 1 (s\<lparr>state := sSQ\<rparr>))
      else if c = CHR 0x22 then lit s (advance 1 (s\<lparr>state := sDQ\<rparr>))
      else if c = CHR ''`'' \<and> (d = MySQL \<or> d = SQLite) then lit s (advance 1 (s\<lparr>state := sBT\<rparr>))
      else if c = CHR ''['' \<and> d = SQLServer then lit s (advance 1 (s\<lparr>state := sBR\<rparr>))
      else if c = CHR ''$'' \<and> readDollarTag (rest s) \<noteq> None
        then lit s (advance (length (the (readDollarTag (rest s))))
                      (s\<lparr>state := sDQD, dqTag := the (readDollarTag (rest s))\<rparr>))
      else if is_param_start s then
        (if after_name s \<noteq> [] \<and> hd (after_name s) = CHR ''{'' then
           (case readCols (after_name s) of
              None \<Rightarrow> (Malformed (param_name s), advance (length (rest s)) s)
            | Some res \<Rightarrow>
                (RowBlock (param_name s) (snd res),
                 advance (length (rest s) - length (fst res)) s))
         else (Param (param_name s), advance (Suc (length (param_name s))) s))
      else lit s (advance 1 s))"

definition lex_step :: "dialect \<Rightarrow> loop \<Rightarrow> token \<times> loop" where
  "lex_step d s =
     (case state s of
        sText \<Rightarrow> lex_text d s
      | sSQ \<Rightarrow> lit s (step_quoted (CHR 0x27) True s)
      | sDQ \<Rightarrow> lit s (step_quoted (CHR 0x22) True s)
      | sBT \<Rightarrow> lit s (step_quoted (CHR ''`'') False s)
      | sBR \<Rightarrow> lit s (step_quoted (CHR '']'') False s)
      | sLC \<Rightarrow> lit s (step_lc s)
      | sBC \<Rightarrow> lit s (step_bc s)
      | sDQD \<Rightarrow> lit s (step_dqd s))"

function lex :: "dialect \<Rightarrow> loop \<Rightarrow> token list" where
  "lex d s = (if rest s = [] then [] else fst (lex_step d s) # lex d (snd (lex_step d s)))"
  by pat_completeness auto

definition tokens :: "dialect \<Rightarrow> string \<Rightarrow> token list" where
  "tokens d q = lex d (init q)"

text \<open>What the specification says each token does to the output.\<close>

fun apply_token ::
  "dialect \<Rightarrow> config \<Rightarrow> val list \<Rightarrow> token \<Rightarrow> emitted \<Rightarrow> error + emitted" where
  "apply_token d cfg inputs (Lit t) e = Inr (writeString t e)"
| "apply_token d cfg inputs (Param name) e =
     (if name_too_long cfg name then Inl (ErrParamNameTooLong name)
      else bind_scalar d cfg inputs name e)"
| "apply_token d cfg inputs (RowBlock name cols) e =
     (if name_too_long cfg name then Inl (ErrParamNameTooLong name)
      else if cols = [] then Inl (ErrRowsNoColumns name)
      else bind_rows d cfg inputs name cols e)"
| "apply_token d cfg inputs (Malformed name) e =
     (if name_too_long cfg name then Inl (ErrParamNameTooLong name)
      else Inl (ErrRowsMalformed name))"

fun render ::
  "dialect \<Rightarrow> config \<Rightarrow> val list \<Rightarrow> token list \<Rightarrow> emitted \<Rightarrow> string \<times> val list \<times> error option" where
  "render d cfg inputs [] e = (buf e, args e, None)"
| "render d cfg inputs (t # ts) e =
     (case apply_token d cfg inputs t e of
        Inl err \<Rightarrow> ([], [], Some err)
      | Inr e' \<Rightarrow> render d cfg inputs ts e')"

fun param_names :: "token list \<Rightarrow> string list" where
  "param_names [] = []"
| "param_names (Param name # ts) = name # param_names ts"
| "param_names (_ # ts) = param_names ts"

fun scalar_only :: "token list \<Rightarrow> bool" where
  "scalar_only [] = True"
| "scalar_only (Lit _ # ts) = scalar_only ts"
| "scalar_only (Param _ # ts) = scalar_only ts"
| "scalar_only (_ # ts) = False"

text \<open>The text of a template of literals and scalar placeholders, the placeholders numbered
  from \<open>k + 1\<close> on.\<close>

fun text_of :: "dialect \<Rightarrow> nat \<Rightarrow> token list \<Rightarrow> string" where
  "text_of d k [] = []"
| "text_of d k (Lit t # ts) = t @ text_of d k ts"
| "text_of d k (Param _ # ts) = writePlaceholder d (Suc k) @ text_of d (Suc k) ts"
| "text_of d k (_ # ts) = text_of d k ts"

text \<open>A value that is a sequence or an array.\<close>

definition is_collection :: "val \<Rightarrow> bool" where
  "is_collection v = (kind_of v = K_Slice \<or> kind_of v = K_Array)"

text \<open>The argument bound for a value that is not a collection: the value itself, or the
  content of the \<open>Scalar\<close> wrapper.\<close>

fun arg_of :: "val \<Rightarrow> val" where
  "arg_of (VScalar x) = x"
| "arg_of v = v"

text \<open>A collection that the parser expands: its elements are not bytes and its type does
  not implement \<open>driver.Valuer\<close>.\<close>

definition expands :: "val \<Rightarrow> bool" where
  "expands v = (is_collection v \<and> type_kind (type_elem (type_of v)) \<noteq> K_Uint8
                \<and> \<not> implements_valuer (type_of v))"

fun join :: "string \<Rightarrow> string list \<Rightarrow> string" where
  "join sep [] = []"
| "join sep [x] = x"
| "join sep (x # y # ys) = x @ sep @ join sep (y # ys)"

text \<open>The placeholder tokens numbered \<open>k + 1, ..., k + cnt\<close>.\<close>

definition placeholders :: "dialect \<Rightarrow> nat \<Rightarrow> nat \<Rightarrow> string list" where
  "placeholders d k cnt = map (\<lambda>i. writePlaceholder d (k + i)) [1..<Suc cnt]"

definition tuple_text :: "dialect \<Rightarrow> nat \<Rightarrow> nat \<Rightarrow> string" where
  "tuple_text d k c = ''('' @ join '', '' (placeholders d k c) @ '')''"

definition rows_text :: "dialect \<Rightarrow> nat \<Rightarrow> nat \<Rightarrow> nat \<Rightarrow> string" where
  "rows_text d k c r = join '', '' (map (\<lambda>j. tuple_text d (k + j * c) c) [0..<r])"

text \<open>The value of a requested column on one row, when it resolves: through the flattened,
  unambiguous field of a record, or through the key of a mapping.\<close>

definition resolve_col :: "val \<Rightarrow> string \<Rightarrow> val option" where
  "resolve_col row col =
     (if is_valid (deIndirect row) \<and> kind_of (deIndirect row) = K_Struct then
        (case fieldIndexMap (type_of (deIndirect row)) col of
           None \<Rightarrow> None
         | Some fi \<Rightarrow>
             if ambiguous fi \<or> \<not> snd (getValueByPathAny (deIndirect row) (index fi)) then None
             else Some (fst (getValueByPathAny (deIndirect row) (index fi))))
      else if snd (getColValue row col) then Some (fst (getColValue row col)) else None)"


section \<open>Basic facts about the parser loop\<close>

lemma advance_simps [simp]:
  "rest (advance k s) = drop k (rest s)" "state (advance k s) = state s"
  "out (advance k s) = out s" "dqTag (advance k s) = dqTag s"
  "seen (advance k s) = seen s @ take k (rest s)"
  by (simp_all add: advance_def)

lemma put_simps [simp]:
  "rest (put t s) = rest s" "seen (put t s) = seen s" "state (put t s) = state s"
  "dqTag (put t s) = dqTag s"
  "n (out (put t s)) = n (out s)" "buf (out (put t s)) = buf (out s) @ t"
  "args (out (put t s)) = args (out s)"
  by (simp_all add: put_def writeString_def)

lemma writeString_simps [simp]:
  "n (writeString t e) = n e" "buf (writeString t e) = buf e @ t"
  "args (writeString t e) = args e"
  by (simp_all add: writeString_def)

lemma emit_simps [simp]:
  "n (emit d v e) = Suc (n e)" "buf (emit d v e) = buf e @ writePlaceholder d (Suc (n e))"
  "args (emit d v e) = args e @ [v]"
  by (simp_all add: emit_def)

lemma readCols_loop_shorter:
  "readCols_loop r cur cols = Some (r', cs) \<Longrightarrow> length r' < length r"
  by (induction r cur cols rule: readCols_loop.induct) (auto split: if_splits)

lemma readCols_shorter: "readCols r = Some res \<Longrightarrow> r \<noteq> [] \<Longrightarrow> length (fst res) < length r"
  unfolding readCols_def by (cases r; cases res) (auto dest: readCols_loop_shorter)


lemma readDollarTag_len: "readDollarTag r = Some tag \<Longrightarrow> 2 \<le> length tag"
  by (auto simp: readDollarTag_def Let_def split: if_splits)

lemma step_param_progress:
  assumes "step_param d cfg inputs s = Inr s'" "is_param_start s" "rest s \<noteq> []"
  shows "length (rest s') < length (rest s)"
proof -
  have af: "length (after_name s) \<le> length (rest s)"
    unfolding after_name_def
    by (metis length_dropWhile_le length_tl diff_le_self le_trans)
  show ?thesis
    using assms af
    unfolding step_param_def Let_def
    by (auto split: if_splits sum.splits option.splits dest!: readCols_shorter)
qed

lemma step_text_progress:
  assumes "step_text d cfg inputs s = Inr s'" "rest s \<noteq> []"
  shows "length (rest s') < length (rest s)"
proof (cases "rest s")
  case Nil
  with assms show ?thesis by simp
next
  case (Cons c q1)
  have "Suc 0 \<le> length (rest s)" using Cons by simp
  then show ?thesis
    using assms
    unfolding step_text_def Let_def
    by (auto split: if_splits dest!: step_param_progress readDollarTag_len)
qed

lemma step_quoted_progress:
  "rest s \<noteq> [] \<Longrightarrow> length (rest (step_quoted cl bs s)) < length (rest s)"
  by (cases "rest s") (auto simp: step_quoted_def Let_def)

lemma step_lc_progress: "rest s \<noteq> [] \<Longrightarrow> length (rest (step_lc s)) < length (rest s)"
  by (cases "rest s") (auto simp: step_lc_def Let_def)

lemma step_bc_progress: "rest s \<noteq> [] \<Longrightarrow> length (rest (step_bc s)) < length (rest s)"
  by (cases "rest s") (auto simp: step_bc_def Let_def)

lemma step_dqd_progress: "rest s \<noteq> [] \<Longrightarrow> length (rest (step_dqd s)) < length (rest s)"
  by (cases "rest s") (auto simp: step_dqd_def Let_def split: option.splits)

lemma step_progress:
  "step d cfg inputs s = Inr s' \<Longrightarrow> rest s \<noteq> [] \<Longrightarrow> length (rest s') < length (rest s)"
  unfolding step_def
  by (cases "state s")
     (auto dest: step_text_progress
           simp: step_quoted_progress step_lc_progress step_bc_progress step_dqd_progress)

termination parse_loop
  by (relation "measure (\<lambda>(d, cfg, inputs, s). length (rest s))")
     (auto dest: step_progress)

declare parse_loop.simps [simp del]

lemma parse_loop_done: "rest s = [] \<Longrightarrow> parse_loop d cfg inputs s = (buf (out s), args (out s), None)"
  by (simp add: parse_loop.simps)

lemma parse_loop_step:
  "rest s \<noteq> [] \<Longrightarrow> step d cfg inputs s = Inr s' \<Longrightarrow> parse_loop d cfg inputs s = parse_loop d cfg inputs s'"
  by (subst parse_loop.simps) simp

lemma parse_loop_error:
  "rest s \<noteq> [] \<Longrightarrow> step d cfg inputs s = Inl e \<Longrightarrow> parse_loop d cfg inputs s = ([], [], Some e)"
  by (subst parse_loop.simps) simp









lemma str_index_None_Cons:
  "str_index (c # cs) sub = None \<Longrightarrow> take (length sub) (c # cs) \<noteq> sub \<and> str_index cs sub = None"
  by (auto split: if_splits)

lemma bc_unterminated:
  "state s = sBC \<Longrightarrow> str_index (rest s) ''*/'' = None \<Longrightarrow>
   parse_loop d cfg inputs s = (buf (out s) @ rest s, args (out s), None)"
proof (induction "rest s" arbitrary: s)
  case Nil
  then show ?case by (simp add: parse_loop_done)
next
  case (Cons c cs)
  from Cons.hyps(2) have r: "rest s = c # cs" by simp
  from Cons.prems(2) r have nt: "take 2 (c # cs) \<noteq> ''*/''" and ni: "str_index cs ''*/'' = None"
    using str_index_None_Cons[of c cs "''*/''"] by auto
  have nx: "\<not> (c = CHR ''*'' \<and> cs \<noteq> [] \<and> hd cs = CHR ''/'')"
    using nt by (cases cs) auto
  define s1 where "s1 = advance 1 (put [c] s)"
  have st: "step d cfg inputs s = Inr s1"
    using Cons.prems(1) nx r by (auto simp: step_def step_bc_def Let_def s1_def)
  have s1: "state s1 = sBC" "rest s1 = cs" "buf (out s1) = buf (out s) @ [c]" "args (out s1) = args (out s)"
    using Cons.prems(1) r by (simp_all add: s1_def)
  have "parse_loop d cfg inputs s = parse_loop d cfg inputs s1"
    using r st by (intro parse_loop_step) auto
  also have "\<dots> = (buf (out s1) @ rest s1, args (out s1), None)"
    using Cons.hyps(1)[of s1] s1 ni by simp
  finally show ?case using s1 r by simp
qed

lemma dqd_unterminated:
  assumes "state s = sDQD" "dqTag s = [] \<or> str_index (rest s) (dqTag s) = None"
  shows "parse_loop d cfg inputs s = (buf (out s) @ rest s, args (out s), None)"
proof (cases "rest s = []")
  case True
  then show ?thesis by (simp add: parse_loop_done)
next
  case False
  define s1 where "s1 = advance (length (rest s)) (put (rest s) s)"
  have st: "step d cfg inputs s = Inr s1"
    using assms by (auto simp: step_def step_dqd_def s1_def)
  have "parse_loop d cfg inputs s = parse_loop d cfg inputs s1"
    using False st by (rule parse_loop_step)
  also have "\<dots> = (buf (out s1), args (out s1), None)"
    by (rule parse_loop_done) (simp add: s1_def)
  finally show ?thesis by (simp add: s1_def)
qed

lemma parse_open_block_comment:
  assumes "str_index body ''*/'' = None"
  shows "parse d (''/*'' @ body) inputs cfg = (''/*'' @ body, [], None)"
proof -
  define s1 where "s1 = advance 2 (put ''/*'' ((init (''/*'' @ body))\<lparr>state := sBC\<rparr>))"
  have st: "step d cfg inputs (init (''/*'' @ body)) = Inr s1"
    by (simp add: step_def step_text_def init_def s1_def Let_def)
  have "parse d (''/*'' @ body) inputs cfg = parse_loop d cfg inputs s1"
    unfolding parse_def using st by (intro parse_loop_step) (simp_all add: init_def)
  also have "\<dots> = (buf (out s1) @ rest s1, args (out s1), None)"
    by (rule bc_unterminated) (use assms in \<open>simp_all add: s1_def init_def\<close>)
  finally show ?thesis by (simp add: s1_def init_def)
qed

lemma parse_open_dollar_quote:
  assumes "readDollarTag (tag @ body) = Some tag" "str_index body tag = None"
  shows "parse d (tag @ body) inputs cfg = (tag @ body, [], None)"
proof -
  have len: "2 \<le> length tag" using assms(1) by (rule readDollarTag_len)
  then obtain t ts where tg: "tag = CHR ''$'' # ts" 
    using assms(1) by (cases tag) (auto simp: readDollarTag_def Let_def split: if_splits)
  define s0 where "s0 = init (tag @ body)"
  define s1 where "s1 = advance (length tag) (put tag (s0\<lparr>state := sDQD, dqTag := tag\<rparr>))"
  have st: "step d cfg inputs s0 = Inr s1"
    using assms(1) by (simp add: step_def step_text_def init_def s0_def s1_def Let_def tg)
  have "parse d (tag @ body) inputs cfg = parse_loop d cfg inputs s1"
    unfolding parse_def s0_def[symmetric] using st
    by (intro parse_loop_step) (simp_all add: s0_def init_def tg)
  also have "\<dots> = (buf (out s1) @ rest s1, args (out s1), None)"
    by (rule dqd_unterminated) (use assms in \<open>simp_all add: s1_def s0_def init_def\<close>)
  finally show ?thesis by (simp add: s1_def s0_def init_def)
qed

lemma parse_loop_error_empty:
  "snd (snd (parse_loop d cfg inputs s)) \<noteq> None \<Longrightarrow>
     fst (parse_loop d cfg inputs s) = [] \<and> fst (snd (parse_loop d cfg inputs s)) = []"
proof (induction d cfg inputs s rule: parse_loop.induct)
  case (1 d cfg inputs s)
  show ?case
  proof (cases "rest s = []")
    case True
    with 1 show ?thesis by (simp add: parse_loop_done)
  next
    case False
    show ?thesis
    proof (cases "step d cfg inputs s")
      case (Inl e)
      with False show ?thesis by (simp add: parse_loop_error)
    next
      case (Inr s')
      with False have eq: "parse_loop d cfg inputs s = parse_loop d cfg inputs s'"
        by (rule parse_loop_step)
      from "1.IH"[OF False Inr] "1.prems" eq show ?thesis by simp
    qed
  qed
qed

lemma lit_snd [simp]: "rest (snd (lit s s')) = rest s'" "state (snd (lit s s')) = state s'"
  "seen (snd (lit s s')) = seen s'" "dqTag (snd (lit s s')) = dqTag s'" "out (snd (lit s s')) = out s"
  by (simp_all add: lit_def)

lemma lex_param_progress:
  assumes "rest s \<noteq> []" "is_param_start s"
  shows "length (rest (snd (
        if after_name s \<noteq> [] \<and> hd (after_name s) = CHR ''{'' then
           (case readCols (after_name s) of
              None \<Rightarrow> (Malformed (param_name s), advance (length (rest s)) s)
            | Some res \<Rightarrow>
                (RowBlock (param_name s) (snd res),
                 advance (length (rest s) - length (fst res)) s))
         else (Param (param_name s), advance (Suc (length (param_name s))) s)))) < length (rest s)"
proof -
  have l: "0 < length (rest s)" using assms by simp
  have af: "length (after_name s) \<le> length (rest s)"
    unfolding after_name_def
    by (metis length_dropWhile_le length_tl diff_le_self le_trans)
  show ?thesis
  proof (cases "after_name s \<noteq> [] \<and> hd (after_name s) = CHR ''{''")
    case True
    show ?thesis
    proof (cases "readCols (after_name s)")
      case None
      with True l show ?thesis by simp
    next
      case (Some res)
      have "length (fst res) < length (after_name s)"
        using readCols_shorter[OF Some] True by simp
      with af have "length (fst res) < length (rest s)" by simp
      with True Some l show ?thesis by simp
    qed
  next
    case False
    with l show ?thesis by auto
  qed
qed

lemma lex_text_progress:
  assumes "rest s \<noteq> []"
  shows "length (rest (snd (lex_text d s))) < length (rest s)"
proof (cases "is_param_start s")
  case True
  then have c: "hd (rest s) = CHR '':''" by (simp add: is_param_start_def)
  show ?thesis
    unfolding lex_text_def Let_def
    using lex_param_progress[OF assms True] c True by simp
next
  case False
  have l: "Suc 0 \<le> length (rest s)" using assms by (cases "rest s") auto
  have rd: "readDollarTag (rest s) \<noteq> None \<Longrightarrow> 0 < length (the (readDollarTag (rest s)))"
    using readDollarTag_len by fastforce
  have dl: "0 < k \<Longrightarrow> length (rest s) - k < length (rest s)" for k
    using l by arith
  show ?thesis
    unfolding lex_text_def Let_def
    using False by (auto simp: dl intro!: dl rd)
qed

lemma lex_step_progress:
  "rest s \<noteq> [] \<Longrightarrow> length (rest (snd (lex_step d s))) < length (rest s)"
  unfolding lex_step_def
  by (cases "state s")
     (simp_all add: lex_text_progress step_quoted_progress step_lc_progress step_bc_progress
                 step_dqd_progress)

termination lex
  by (relation "measure (\<lambda>(d, s). length (rest s))") (simp_all add: lex_step_progress)

declare lex.simps [simp del]

section \<open>Quoted literals, comments and malformed quoting\<close>



text \<open>
  Claim C9. The parser terminates on every template: every iteration of its loop strictly
  shortens the remaining input (this is the termination argument of \<open>parse_loop\<close>), and no
  iteration outside the plain state returns an error. An unterminated block comment and an
  unterminated dollar-quoted region consume the remainder of the input as literal text,
  without error and without binding anything.
\<close>

theorem C9_terminates_and_consumes_unterminated_regions:
  "(rest s \<noteq> [] \<longrightarrow> (\<forall>s'. step d cfg inputs s = Inr s' \<longrightarrow> length (rest s') < length (rest s)))
   \<and> (state s \<noteq> sText \<longrightarrow> (\<exists>s'. step d cfg inputs s = Inr s'))
   \<and> (state s = sBC \<and> str_index (rest s) ''*/'' = None \<longrightarrow>
        parse_loop d cfg inputs s = (buf (out s) @ rest s, args (out s), None))
   \<and> (state s = sDQD \<and> (dqTag s = [] \<or> str_index (rest s) (dqTag s) = None) \<longrightarrow>
        parse_loop d cfg inputs s = (buf (out s) @ rest s, args (out s), None))
   \<and> (str_index body ''*/'' = None \<longrightarrow>
        parse d (''/*'' @ body) inputs cfg = (''/*'' @ body, [], None))
   \<and> (readDollarTag (tag @ body') = Some tag \<and> str_index body' tag = None \<longrightarrow>
        parse d (tag @ body') inputs cfg = (tag @ body', [], None))"
proof (intro conjI impI allI)
  fix s' assume "rest s \<noteq> []" "step d cfg inputs s = Inr s'"
  then show "length (rest s') < length (rest s)" by (simp add: step_progress)
next
  assume "state s \<noteq> sText"
  then show "\<exists>s'. step d cfg inputs s = Inr s'"
    unfolding step_def by (cases "state s") simp_all
next
  assume "state s = sBC \<and> str_index (rest s) ''*/'' = None"
  then show "parse_loop d cfg inputs s = (buf (out s) @ rest s, args (out s), None)"
    by (simp add: bc_unterminated)
next
  assume "state s = sDQD \<and> (dqTag s = [] \<or> str_index (rest s) (dqTag s) = None)"
  then show "parse_loop d cfg inputs s = (buf (out s) @ rest s, args (out s), None)"
    by (intro dqd_unterminated) auto
next
  assume "str_index body ''*/'' = None"
  then show "parse d (''/*'' @ body) inputs cfg = (''/*'' @ body, [], None)"
    by (rule parse_open_block_comment)
next
  assume "readDollarTag (tag @ body') = Some tag \<and> str_index body' tag = None"
  then show "parse d (tag @ body') inputs cfg = (tag @ body', [], None)"
    by (intro parse_open_dollar_quote) auto
qed

theorem C9_witness:
  "str_index '' :a'' ''*/'' = None
   \<and> parse MySQL ''/* :a'' [] \<lparr>MaxParams = 0, MaxNameLen = 64\<rparr> = (''/* :a'', [], None)
   \<and> readDollarTag ''$x$ :a $x'' = Some ''$x$''
   \<and> str_index '' :a $x'' ''$x$'' = None
   \<and> parse Postgres ''$x$ :a $x'' [] \<lparr>MaxParams = 0, MaxNameLen = 64\<rparr> = (''$x$ :a $x'', [], None)
   \<and> parse_loop MySQL \<lparr>MaxParams = 0, MaxNameLen = 64\<rparr> []
        \<lparr>state = sBC, seen = ''/*'', rest = '' :a'', dqTag = [],
         out = \<lparr>n = 0, buf = ''/*'', args = []\<rparr>\<rparr> = (''/* :a'', [], None)
   \<and> parse_loop Postgres \<lparr>MaxParams = 0, MaxNameLen = 64\<rparr> []
        \<lparr>state = sDQD, seen = ''$x$'', rest = '' :a $x'', dqTag = ''$x$'',
         out = \<lparr>n = 0, buf = ''$x$'', args = []\<rparr>\<rparr> = (''$x$ :a $x'', [], None)
   \<and> (\<exists>s'. step MySQL \<lparr>MaxParams = 0, MaxNameLen = 64\<rparr> []
        \<lparr>state = sBC, seen = ''/*'', rest = '' :a'', dqTag = [],
         out = \<lparr>n = 0, buf = ''/*'', args = []\<rparr>\<rparr> = Inr s' \<and> length (rest s') < 3)"
proof -
  have a: "str_index '' :a'' ''*/'' = None" by simp
  have b: "readDollarTag (''$x$'' @ '' :a $x'') = Some ''$x$''"
    by (simp add: readDollarTag_def isAlphaNumUnderscore_def isAlphaUnderscore_def)
  have c: "str_index '' :a $x'' ''$x$'' = None" by simp
  show ?thesis
    using a b c
      C9_terminates_and_consumes_unterminated_regions
        [of "\<lparr>state = sBC, seen = ''/*'', rest = '' :a'', dqTag = [],
              out = \<lparr>n = 0, buf = ''/*'', args = []\<rparr>\<rparr>"
            MySQL "\<lparr>MaxParams = 0, MaxNameLen = 64\<rparr>" "[]" "'' :a''" "''$x$''" "'' :a $x''"]
      C9_terminates_and_consumes_unterminated_regions
        [of "\<lparr>state = sDQD, seen = ''$x$'', rest = '' :a $x'', dqTag = ''$x$'',
              out = \<lparr>n = 0, buf = ''$x$'', args = []\<rparr>\<rparr>"
            Postgres "\<lparr>MaxParams = 0, MaxNameLen = 64\<rparr>" "[]" "'' :a''" "''$x$''" "'' :a $x''"]
    by (auto simp del: str_index.simps)
qed

end
